theory Spec2Isabelle
  imports Complex_Main
begin

section \<open>Twickell: job records, bridge queue, worker and retention\<close>

text \<open>
  A shallow embedding of \<^verbatim>\<open>app/app.py\<close> (the request tier) and
  \<^verbatim>\<open>workers/queue_worker.py\<close> (the worker and the retention pass).

  Conventions.
  \<^item> A job record is the dictionary that \<^verbatim>\<open>upload_pdf\<close> writes, the only place
    where job records are created; it is modelled as a record with the field types
    written there. The three fields that the retention pass reads through
    \<^verbatim>\<open>job.get\<close> and tests for absence (\<^verbatim>\<open>retention_days\<close>,
    \<^verbatim>\<open>created_at\<close>, \<^verbatim>\<open>done_at\<close>) are options. For \<^verbatim>\<open>retention_days\<close>,
    \<open>None\<close> is a missing key and nothing else: \<^verbatim>\<open>int(None)\<close> raises, and no writer
    stores \<^verbatim>\<open>null\<close> there. For the two timestamps, which the code tests with
    \<^verbatim>\<open>not\<close>, \<open>None\<close> is a missing key or the \<^verbatim>\<open>null\<close> that \<^verbatim>\<open>upload_pdf\<close>
    writes for \<^verbatim>\<open>done_at\<close>. The key \<^verbatim>\<open>"id"\<close> is the field \<open>id_field\<close>.
  \<^item> File system locations are symbolic paths; both programs are taken to run on the
    same root directory.
  \<^item> Every Python exception is a value: \<open>Inl e\<close>.
  \<^item> Strings are ASCII.
\<close>

subsection \<open>Paths and job records\<close>

datatype path =
    Job_File string          \<comment> \<open>\<^verbatim>\<open>jobs/<id>.json\<close>\<close>
  | Req_File string          \<comment> \<open>\<^verbatim>\<open>bridge_queue/requests/<id>.json\<close>\<close>
  | Res_File string          \<comment> \<open>\<^verbatim>\<open>bridge_queue/results/<id>.json\<close>\<close>
  | Ledger_File              \<comment> \<open>\<^verbatim>\<open>ledger/free_sample_by_email.json\<close>\<close>
  | Upload_Dir string        \<comment> \<open>\<^verbatim>\<open>uploads/<id>\<close>\<close>
  | Input_Pdf string         \<comment> \<open>\<^verbatim>\<open>uploads/<id>/input.pdf\<close>\<close>
  | Output_Dir string        \<comment> \<open>\<^verbatim>\<open>outputs/<id>\<close>\<close>
  | Output_Xlsx string       \<comment> \<open>\<^verbatim>\<open>outputs/<id>/output.xlsx\<close>\<close>
  | Metadata_Json string     \<comment> \<open>\<^verbatim>\<open>outputs/<id>/metadata.json\<close>\<close>
  | Summary_Txt string       \<comment> \<open>\<^verbatim>\<open>outputs/<id>/summary.txt\<close>\<close>
  | Bundle_Zip string        \<comment> \<open>\<^verbatim>\<open>outputs/<id>/bundle.zip\<close>\<close>
  | Tmp path                 \<comment> \<open>\<^verbatim>\<open>path.with_suffix(path.suffix + ".tmp")\<close>\<close>

record job =
  id_field :: string
  created_at :: "string option"
  updated_at :: string
  status :: string
  email :: string
  pages :: int
  base_amount_due :: int
  amount_due :: int
  paid :: bool
  free_sample_applied :: bool
  retention_days :: "int option"
  done_at :: "string option"
  paths :: "string \<rightharpoonup> path"

datatype py_error = ValueError | OverflowError | ZeroDivisionError | KeyError string

definition and_then :: "'e + 'a \<Rightarrow> ('a \<Rightarrow> 'e + 'b) \<Rightarrow> 'e + 'b" where
  "and_then r f = (case r of Inl e \<Rightarrow> Inl e | Inr x \<Rightarrow> f x)"

subsection \<open>Retention: \<^verbatim>\<open>should_delete\<close>\<close>

text \<open>
  An aware UTC \<^verbatim>\<open>datetime\<close> is an instant: the number of microseconds since
  0001-01-01T00:00:00Z, between \<open>DT_MIN\<close> and \<open>DT_MAX\<close> (9999-12-31T23:59:59.999999Z).
  A \<^verbatim>\<open>timedelta\<close> is a number of microseconds. Adding a \<^verbatim>\<open>timedelta\<close> to a
  \<^verbatim>\<open>datetime\<close> raises \<^verbatim>\<open>OverflowError\<close> outside that range, and so does
  \<^verbatim>\<open>timedelta(days=n)\<close> beyond 999999999 days.

  \<^verbatim>\<open>datetime.fromisoformat\<close> followed by the normalisation to UTC is not part of the
  repository; it is the parameter \<open>fromiso\<close>, \<open>None\<close> where the library raises
  \<^verbatim>\<open>ValueError\<close>. The clock reading \<^verbatim>\<open>datetime.now(timezone.utc)\<close> is the
  parameter \<open>now\<close>.
\<close>

definition DT_MIN :: int where "DT_MIN = 0"
definition DT_MAX :: int where "DT_MAX = 315537897599999999"

definition RETENTION_ZERO_DONE_BUFFER_SECONDS :: int where
  "RETENTION_ZERO_DONE_BUFFER_SECONDS = 3600"

definition timedelta_seconds :: "int \<Rightarrow> int" where
  "timedelta_seconds s = s * 1000000"

definition timedelta_days :: "int \<Rightarrow> py_error + int" where
  "timedelta_days n =
     (if \<bar>n\<bar> \<le> 999999999 then Inr (n * 86400 * 1000000) else Inl OverflowError)"

definition dt_add :: "int \<Rightarrow> int \<Rightarrow> py_error + int" where
  "dt_add t d = (if DT_MIN \<le> t + d \<and> t + d \<le> DT_MAX then Inr (t + d) else Inl OverflowError)"

definition parse_iso :: "(string \<Rightarrow> int option) \<Rightarrow> string \<Rightarrow> py_error + int" where
  "parse_iso fromiso s = (case fromiso s of None \<Rightarrow> Inl ValueError | Some t \<Rightarrow> Inr t)"

definition valid_instants :: "(string \<Rightarrow> int option) \<Rightarrow> bool" where
  \<comment> \<open>Every timestamp the library parses is a \<^verbatim>\<open>datetime\<close>.\<close>
  "valid_instants fromiso \<longleftrightarrow> (\<forall>s t. fromiso s = Some t \<longrightarrow> DT_MIN \<le> t \<and> t \<le> DT_MAX)"

definition truthy_str :: "string option \<Rightarrow> bool" where
  \<comment> \<open>Python truth value of a string-or-None: \<^verbatim>\<open>None\<close> and \<^verbatim>\<open>""\<close> are false.\<close>
  "truthy_str v = (case v of None \<Rightarrow> False | Some s \<Rightarrow> s \<noteq> [])"

definition should_delete :: "(string \<Rightarrow> int option) \<Rightarrow> int \<Rightarrow> job \<Rightarrow> py_error + bool" where
  "should_delete fromiso now j =
     (if status j \<notin> {''done'', ''failed''} then Inr False
      else if \<not> truthy_str (created_at j) then Inr False
      else
        let retention = (case retention_days j of None \<Rightarrow> 7 | Some n \<Rightarrow> n) in
        if retention = 0 then
          (if \<not> truthy_str (done_at j) then Inr False
           else
             and_then (parse_iso fromiso (the (done_at j))) (\<lambda>t.
             and_then (dt_add t (timedelta_seconds RETENTION_ZERO_DONE_BUFFER_SECONDS)) (\<lambda>t'.
             Inr (t' \<le> now))))
        else
          and_then (parse_iso fromiso (the (created_at j))) (\<lambda>t.
          and_then (timedelta_days retention) (\<lambda>d.
          and_then (dt_add t d) (\<lambda>t'.
          Inr (t' \<le> now)))))"

subsection \<open>Pricing: \<^verbatim>\<open>calc_base_amount\<close>\<close>

text \<open>
  \<^verbatim>\<open>pages / PRICE_BLOCK_PAGES\<close> is Python's true division of two integers: the
  quotient rounded to the nearest binary64 number, ties to even, with
  \<^verbatim>\<open>OverflowError\<close> beyond the binary64 range. A finite binary64 number is a
  rational \<open>m * 2 ^ q\<close> with \<open>\<bar>m\<bar> < 2 ^ 53\<close> and \<open>- 1074 \<le> q\<close>; \<open>py_truediv\<close>
  computes it exactly. \<^verbatim>\<open>math.ceil\<close> of a float is the integer ceiling.
\<close>

function bit_length :: "int \<Rightarrow> nat" where
  "bit_length n = (if n \<le> 0 then 0 else Suc (bit_length (n div 2)))"
  by pat_completeness auto
termination
  by (relation "measure nat") auto

declare bit_length.simps [simp del]

definition pow2 :: "int \<Rightarrow> rat" where
  "pow2 k = (if 0 \<le> k then 2 ^ nat k else 1 / 2 ^ nat (- k))"

definition round_half_even :: "rat \<Rightarrow> int" where
  "round_half_even x =
     (let f = \<lfloor>x\<rfloor>; d = x - of_int f
      in if d < 1 / 2 then f else if 1 / 2 < d then f + 1 else if even f then f else f + 1)"

definition binary_exponent :: "int \<Rightarrow> int \<Rightarrow> int" where
  "binary_exponent a b =
     (let e0 = int (bit_length \<bar>a\<bar>) - int (bit_length \<bar>b\<bar>)
      in if \<bar>of_int a / of_int b\<bar> < pow2 e0 then e0 - 1 else e0)"

definition py_truediv :: "int \<Rightarrow> int \<Rightarrow> py_error + rat" where
  "py_truediv a b =
     (if b = 0 then Inl ZeroDivisionError
      else if a = 0 then Inr 0
      else
        let x = \<bar>of_int a / of_int b\<bar>;
            q = max (binary_exponent a b - 52) (- 1074);
            r = of_int (round_half_even (x / pow2 q)) * pow2 q
        in if pow2 1024 \<le> r then Inl OverflowError
           else Inr (if (a < 0) = (b < 0) then r else - r))"

definition PRICE_BLOCK_PAGES :: int where "PRICE_BLOCK_PAGES = 25"
definition PRICE_PER_BLOCK :: int where "PRICE_PER_BLOCK = 25"

definition calc_base_amount :: "int \<Rightarrow> py_error + int" where
  "calc_base_amount n =
     and_then (py_truediv n PRICE_BLOCK_PAGES) (\<lambda>q.
       let blocks = \<lceil>q\<rceil> in Inr (blocks * PRICE_PER_BLOCK))"

definition MAX_PAGES :: int where "MAX_PAGES = 200"
definition FREE_SAMPLE_MAX_PAGES :: int where "FREE_SAMPLE_MAX_PAGES = 5"
definition DEFAULT_RETENTION_DAYS :: int where "DEFAULT_RETENTION_DAYS = 7"
definition ALLOWED_RETENTION_DAYS :: "int set" where "ALLOWED_RETENTION_DAYS = {0, 7, 30}"

text \<open>Concrete data for the instances below: one timestamp the library parses
  (2024-01-01T00:00:00Z, 738885 days after 0001-01-01), and a finished job.\<close>

definition iso_2024 :: "string \<Rightarrow> int option" where
  "iso_2024 s = (if s = ''2024-01-01T00:00:00Z'' then Some 63839664000000000 else None)"

definition done_job :: job where
  "done_job = \<lparr> id_field = ''job_1'', created_at = Some ''2024-01-01T00:00:00Z'',
      updated_at = ''2024-01-01T00:00:00Z'', status = ''done'', email = ''a@b.c'',
      pages = 3, base_amount_due = 25, amount_due = 25, paid = True,
      free_sample_applied = False, retention_days = Some 7,
      done_at = Some ''2024-01-01T00:00:00Z'',
      paths = [''input_pdf'' \<mapsto> Input_Pdf ''job_1'', ''upload_dir'' \<mapsto> Upload_Dir ''job_1''] \<rparr>"

subsection \<open>The file system, the clock and failing operations\<close>

text \<open>
  The state of the request tier and of the worker is the content of the directories
  they share, the log, the list of file operations performed so far (\<open>trace\<close>), and a
  clock: \<open>wall\<close> gives the timestamp returned by the \<open>n\<close>-th reading, \<open>ticks\<close> counts
  the readings. Directories are created on demand with \<^verbatim>\<open>exist_ok=True\<close> and hold no
  data of their own, so \<^verbatim>\<open>ensure_dirs\<close> and \<^verbatim>\<open>mkdir\<close> change nothing here.

  An operation maps a state to a result and a new state; the state reached is kept when the
  operation raises, since files written before the exception stay written.
\<close>

datatype fs_op = Write_Text path | Write_Bytes path | Replace path path | Unlink path

datatype used_entry = Corrupted_At string | Used_By string string

record ledger =
  version :: int
  used :: "string \<rightharpoonup> used_entry"

datatype ledger_file = No_File | Unparseable | Parsed ledger

record bridge_request =
  kind :: string
  req_job_id :: string
  req_created_at :: string
  input_pdf :: path
  output_dir :: path
  notes_pages :: int
  notes_free_sample_applied :: bool
  notes_retention_days :: int

record bridge_result =
  res_job_id :: string
  res_ok :: bool
  res_done_at :: string
  res_paths :: "string \<rightharpoonup> path"

record world =
  jobs :: "string \<rightharpoonup> job"
  input_pdfs :: "string set"
  requests :: "string \<rightharpoonup> bridge_request"
  results :: "string \<rightharpoonup> bridge_result"
  free_sample_ledger :: ledger_file
  outputs :: "path set"
  trace :: "fs_op list"
  log_lines :: "(string \<times> string) list"
  ticks :: nat
  wall :: "nat \<Rightarrow> string"

type_synonym ('e, 'a) io = "world \<Rightarrow> ('e + 'a) \<times> world"

definition return :: "'a \<Rightarrow> ('e, 'a) io" where
  "return x w = (Inr x, w)"

definition raise :: "'e \<Rightarrow> ('e, 'a) io" where
  "raise e w = (Inl e, w)"

definition then_do :: "('e, 'a) io \<Rightarrow> ('a \<Rightarrow> ('e, 'b) io) \<Rightarrow> ('e, 'b) io" where
  "then_do m f w = (case m w of (Inl e, w') \<Rightarrow> (Inl e, w') | (Inr x, w') \<Rightarrow> f x w')"

definition perform :: "fs_op \<Rightarrow> world \<Rightarrow> world" where
  "perform op w = w\<lparr>trace := trace w @ [op]\<rparr>"

definition now_ts :: "('e, string) io" where
  "now_ts w = (Inr (wall w (ticks w)), w\<lparr>ticks := Suc (ticks w)\<rparr>)"

datatype detail = Text string | Invalid_Status_For_Start string

datatype failure = HTTPException nat detail | Unhandled py_error

subsection \<open>The job store\<close>

definition write_job :: "job \<Rightarrow> (failure, unit) io" where
  "write_job j w =
     (Inr (), perform (Write_Text (Job_File (id_field j))) (w\<lparr>jobs := (jobs w)(id_field j \<mapsto> j)\<rparr>))"

definition read_job :: "string \<Rightarrow> (failure, job) io" where
  "read_job job_id w =
     (case jobs w job_id of
        None \<Rightarrow> (Inl (HTTPException 404 (Text ''job_not_found'')), w)
      | Some j \<Rightarrow> (Inr j, w))"

definition update_job :: "string \<Rightarrow> (job \<Rightarrow> job) \<Rightarrow> (failure, job) io" where
  \<comment> \<open>\<open>patch\<close> is \<^verbatim>\<open>job.update(patch)\<close>.\<close>
  "update_job job_id patch =
     then_do (read_job job_id) (\<lambda>j.
     then_do now_ts (\<lambda>ts.
     let j' = (patch j)\<lparr>updated_at := ts\<rparr> in
     then_do (write_job j') (\<lambda>_.
     return j')))"

subsection \<open>The free-sample ledger\<close>

definition read_ledger :: "(failure, ledger) io" where
  "read_ledger w =
     (case free_sample_ledger w of
        No_File \<Rightarrow> (Inr \<lparr>version = 1, used = Map.empty\<rparr>, w)
      | Parsed led \<Rightarrow> (Inr led, w)
      | Unparseable \<Rightarrow>
          then_do now_ts (\<lambda>ts.
          return \<lparr>version = 1, used = [''__CORRUPTED__'' \<mapsto> Corrupted_At ts]\<rparr>) w)"

definition write_ledger :: "ledger \<Rightarrow> (failure, unit) io" where
  "write_ledger led w =
     (Inr (), perform (Write_Text Ledger_File) (w\<lparr>free_sample_ledger := Parsed led\<rparr>))"

definition is_space :: "char \<Rightarrow> bool" where
  \<comment> \<open>The ASCII characters for which \<^verbatim>\<open>str.isspace\<close> holds.\<close>
  "is_space c \<longleftrightarrow>
     c \<in> {CHR 0x09, CHR 0x0A, CHR 0x0B, CHR 0x0C, CHR 0x0D, CHR 0x1C, CHR 0x1D, CHR 0x1E,
          CHR 0x1F, CHR '' ''}"

definition str_strip :: "string \<Rightarrow> string" where
  "str_strip s = rev (dropWhile is_space (rev (dropWhile is_space s)))"

definition lower_char :: "char \<Rightarrow> char" where
  "lower_char c =
     (case map_of (zip ''ABCDEFGHIJKLMNOPQRSTUVWXYZ'' ''abcdefghijklmnopqrstuvwxyz'') c of
        None \<Rightarrow> c | Some d \<Rightarrow> d)"

definition str_lower :: "string \<Rightarrow> string" where
  "str_lower s = map lower_char s"

definition normalize_email :: "string \<Rightarrow> string" where
  "normalize_email e = str_lower (str_strip e)"

definition email_can_use_free_sample :: "string \<Rightarrow> (failure, bool) io" where
  "email_can_use_free_sample email_norm =
     then_do read_ledger (\<lambda>led.
     return (used led email_norm = None))"

definition mark_email_used_free_sample :: "string \<Rightarrow> string \<Rightarrow> (failure, unit) io" where
  "mark_email_used_free_sample email_norm job_id =
     then_do read_ledger (\<lambda>led.
     then_do now_ts (\<lambda>ts.
     write_ledger (led\<lparr>used := (used led)(email_norm \<mapsto> Used_By job_id ts)\<rparr>)))"

subsection \<open>The bridge queue, request side\<close>

definition write_bridge_request :: "job \<Rightarrow> (failure, path) io" where
  "write_bridge_request j =
     then_do now_ts (\<lambda>ts.
     case paths j ''input_pdf'' of
       None \<Rightarrow> raise (Unhandled (KeyError ''input_pdf''))
     | Some pdf \<Rightarrow>
         let req = \<lparr> kind = ''twickell_pdf_to_xlsx'', req_job_id = id_field j,
               req_created_at = ts, input_pdf = pdf, output_dir = Output_Dir (id_field j),
               notes_pages = pages j, notes_free_sample_applied = free_sample_applied j,
               notes_retention_days =
                 (case retention_days j of None \<Rightarrow> DEFAULT_RETENTION_DAYS | Some n \<Rightarrow> n) \<rparr>;
             req_path = Req_File (id_field j)
         in (\<lambda>w. (Inr req_path,
               perform (Write_Text req_path) (w\<lparr>requests := (requests w)(id_field j \<mapsto> req)\<rparr>))))"

subsection \<open>\<^verbatim>\<open>start\<close>\<close>

record start_reply =
  reply_job :: job
  reply_note :: "string option"
  queued_request :: "path option"

definition start :: "string \<Rightarrow> (failure, start_reply) io" where
  "start job_id =
     then_do (read_job job_id) (\<lambda>j.
     if \<not> paid j then raise (HTTPException 402 (Text ''payment_required''))
     else if status j = ''queued'' then
       return \<lparr>reply_job = j, reply_note = Some ''already_queued'', queued_request = None\<rparr>
     else if status j \<notin> {''uploaded'', ''paid''} then
       raise (HTTPException 409 (Invalid_Status_For_Start (status j)))
     else
       then_do (update_job job_id (\<lambda>j. j\<lparr>status := ''queued''\<rparr>)) (\<lambda>j1.
       then_do (write_bridge_request j1) (\<lambda>req_path.
       then_do (update_job job_id (\<lambda>j. j\<lparr>paths := (paths j1)(''bridge_request'' \<mapsto> req_path)\<rparr>)) (\<lambda>j2.
       return \<lparr>reply_job = j2, reply_note = None, queued_request = Some req_path\<rparr>))))"

definition empty_world :: world where
  "empty_world = \<lparr> jobs = Map.empty, input_pdfs = {}, requests = Map.empty,
     results = Map.empty, free_sample_ledger = No_File, outputs = {}, trace = [],
     log_lines = [], ticks = 0, wall = (\<lambda>n. ''2024-01-01T00:00:00Z'') \<rparr>"

definition paid_job :: job where
  "paid_job = done_job\<lparr>status := ''paid'', done_at := None\<rparr>"

definition paid_world :: world where
  "paid_world = empty_world\<lparr>jobs := [''job_1'' \<mapsto> paid_job], input_pdfs := {''job_1''}\<rparr>"

subsection \<open>\<^verbatim>\<open>quote\<close> and \<^verbatim>\<open>upload_pdf\<close>\<close>

text \<open>
  An uploaded file is known by what the handler can observe of it: reading it fails, or
  it is saved and \<^verbatim>\<open>PdfReader\<close> rejects it, or it is saved and has a number of
  pages. The identifier drawn by \<^verbatim>\<open>new_job_id\<close> is the parameter \<open>new_id\<close>. The
  exception text interpolated into some error details is left out.
\<close>

definition CAP_REJECT_MSG :: string where
  "CAP_REJECT_MSG = ''Upload rejected: hard cap is 200 pages per upload. Please split your PDF into 200-page batches and upload each batch separately.''"

datatype quote_reply = Reject string | Quote int

definition quote :: "int \<Rightarrow> failure + quote_reply" where
  "quote n =
     (if n \<le> 0 then Inl (HTTPException 400 (Text ''pages_required''))
      else if n > MAX_PAGES then Inr (Reject CAP_REJECT_MSG)
      else case calc_base_amount n of
             Inl e \<Rightarrow> Inl (Unhandled e)
           | Inr base_amount \<Rightarrow> Inr (Quote base_amount))"

datatype upload_body = Read_Fails | Not_A_Pdf | Pdf nat

record upload_form =
  filename :: "string option"
  body :: upload_body
  form_email :: string
  form_retention_days :: "int option"

record upload_reply =
  up_job_id :: string
  up_pages :: int
  up_email :: string
  up_base_amount_due :: int
  up_free_sample_applied :: bool
  up_amount_due :: int
  up_retention_days :: int

definition endswith :: "string \<Rightarrow> string \<Rightarrow> bool" where
  "endswith s suffix \<longleftrightarrow>
     length suffix \<le> length s \<and> drop (length s - length suffix) s = suffix"

definition save_upload :: "string \<Rightarrow> upload_body \<Rightarrow> (failure, unit) io" where
  \<comment> \<open>The file is created when it is opened for writing, before the upload is read.\<close>
  "save_upload new_id b w =
     (let w' = perform (Write_Bytes (Input_Pdf new_id)) (w\<lparr>input_pdfs := insert new_id (input_pdfs w)\<rparr>)
      in case b of
           Read_Fails \<Rightarrow> (Inl (HTTPException 500 (Text ''upload_save_failed'')), w')
         | _ \<Rightarrow> (Inr (), w'))"

definition count_pdf_pages :: "upload_body \<Rightarrow> (failure, int) io" where
  "count_pdf_pages b =
     (case b of
        Pdf n \<Rightarrow> return (int n)
      | _ \<Rightarrow> raise (HTTPException 400 (Text ''invalid_pdf'')))"

definition unlink_input_pdf :: "string \<Rightarrow> (failure, unit) io" where
  "unlink_input_pdf new_id w =
     (Inr (), perform (Unlink (Input_Pdf new_id)) (w\<lparr>input_pdfs := input_pdfs w - {new_id}\<rparr>))"

definition lift_error :: "py_error + 'a \<Rightarrow> (failure, 'a) io" where
  "lift_error r = (case r of Inl e \<Rightarrow> raise (Unhandled e) | Inr x \<Rightarrow> return x)"

definition upload_pdf :: "string \<Rightarrow> upload_form \<Rightarrow> (failure, upload_reply) io" where
  "upload_pdf new_id up =
     (let email_norm = normalize_email (form_email up) in
      if email_norm = [] \<or> CHR ''@'' \<notin> set email_norm then
        raise (HTTPException 400 (Text ''valid_email_required''))
      else
        let retention_days_i =
              (case form_retention_days up of None \<Rightarrow> DEFAULT_RETENTION_DAYS | Some n \<Rightarrow> n) in
        if retention_days_i \<notin> ALLOWED_RETENTION_DAYS then
          raise (HTTPException 400 (Text ''retention_days_must_be_one_of_[0, 7, 30]''))
        else
          let fname = str_lower (case filename up of None \<Rightarrow> [] | Some f \<Rightarrow> f) in
          if \<not> endswith fname ''.pdf'' then
            raise (HTTPException 400 (Text ''only_pdf_allowed''))
          else
            then_do (save_upload new_id (body up)) (\<lambda>_.
            then_do (count_pdf_pages (body up)) (\<lambda>n.
            if n > MAX_PAGES then
              then_do (unlink_input_pdf new_id) (\<lambda>_.
              raise (HTTPException 413 (Text CAP_REJECT_MSG)))
            else
              then_do (lift_error (calc_base_amount n)) (\<lambda>base_amount.
              then_do (if n \<le> FREE_SAMPLE_MAX_PAGES then email_can_use_free_sample email_norm
                       else return False) (\<lambda>free_sample_eligible.
              let free_sample_applied = free_sample_eligible;
                  amount = (if free_sample_applied then 0 else base_amount);
                  st = (if amount = 0 then ''uploaded'' else ''awaiting_payment'');
                  pd = (if amount = 0 then True else False)
              in
              then_do now_ts (\<lambda>created.
              then_do now_ts (\<lambda>updated.
              let j = \<lparr> id_field = new_id, created_at = Some created, updated_at = updated,
                        status = st, email = email_norm, pages = n,
                        base_amount_due = base_amount, amount_due = amount, paid = pd,
                        free_sample_applied = free_sample_applied,
                        retention_days = Some retention_days_i, done_at = None,
                        paths = [''input_pdf'' \<mapsto> Input_Pdf new_id,
                                 ''upload_dir'' \<mapsto> Upload_Dir new_id] \<rparr>
              in
              then_do (write_job j) (\<lambda>_.
              then_do (if free_sample_applied then mark_email_used_free_sample email_norm new_id
                       else return ()) (\<lambda>_.
              return \<lparr> up_job_id = new_id, up_pages = n, up_email = email_norm,
                       up_base_amount_due = base_amount,
                       up_free_sample_applied = free_sample_applied, up_amount_due = amount,
                       up_retention_days = retention_days_i \<rparr>)))))))))"

definition form_valid :: "upload_form \<Rightarrow> bool" where
  \<comment> \<open>The three checks of the form fields that precede the saving of the file.\<close>
  "form_valid up \<longleftrightarrow>
     normalize_email (form_email up) \<noteq> [] \<and> CHR ''@'' \<in> set (normalize_email (form_email up))
     \<and> (case form_retention_days up of None \<Rightarrow> DEFAULT_RETENTION_DAYS | Some n \<Rightarrow> n)
           \<in> ALLOWED_RETENTION_DAYS
     \<and> endswith (str_lower (case filename up of None \<Rightarrow> [] | Some f \<Rightarrow> f)) ''.pdf''"

definition ledger_has :: "world \<Rightarrow> string \<Rightarrow> bool" where
  \<comment> \<open>Whether the ledger, as \<^verbatim>\<open>read_ledger\<close> returns it, has an entry for the key.\<close>
  "ledger_has w e \<longleftrightarrow>
     (case free_sample_ledger w of
        No_File \<Rightarrow> False
      | Parsed led \<Rightarrow> used led e \<noteq> None
      | Unparseable \<Rightarrow> e = ''__CORRUPTED__'')"

subsection \<open>The worker's atomic write\<close>

definition write_json :: "path \<Rightarrow> (world \<Rightarrow> world) \<Rightarrow> world \<Rightarrow> world" where
  \<comment> \<open>\<open>store\<close> puts the serialised data under the path; the file operations are a write to
      the temporary name and \<^verbatim>\<open>os.replace\<close>.\<close>
  "write_json p store w = perform (Replace (Tmp p) p) (perform (Write_Text (Tmp p)) (store w))"

definition used_ledger :: ledger where
  "used_ledger = \<lparr>version = 1,
     used = [''a@b.c'' \<mapsto> Used_By ''job_0'' ''2023-12-31T00:00:00Z'']\<rparr>"

definition form :: "nat \<Rightarrow> upload_form" where
  "form n = \<lparr>filename = Some ''Doc.PDF'', body = Pdf n, form_email = '' A@b.c '',
     form_retention_days = None\<rparr>"

definition used_world :: world where
  \<comment> \<open>The ledger records that \<^verbatim>\<open>a@b.c\<close> has had its free sample.\<close>
  "used_world = empty_world\<lparr>free_sample_ledger := Parsed used_ledger\<rparr>"

definition corrupt_world :: world where
  \<comment> \<open>The ledger file exists and is not JSON.\<close>
  "corrupt_world = empty_world\<lparr>free_sample_ledger := Unparseable\<rparr>"

subsection \<open>The worker: \<^verbatim>\<open>process_request\<close> and the loop's exception handler\<close>

text \<open>
  The points of \<^verbatim>\<open>process_request\<close> at which an operation on files or an import can
  raise are named, and \<open>faults\<close> tells which of them raise for the request at hand. A
  step that raises does so before it changes any of the files modelled here
  (\<^verbatim>\<open>write_json\<close> leaves its target untouched unless \<^verbatim>\<open>os.replace\<close> has succeeded).
  \<^verbatim>\<open>log\<close> and \<^verbatim>\<open>unlink(missing_ok=True)\<close> are taken not to raise. A request file
  that is not JSON is a request whose \<open>Read_Request\<close> step raises. The identifier that
  the worker reads with \<^verbatim>\<open>job.get("job_id") or job.get("id")\<close> is \<open>id_field\<close>: the
  request tier writes no \<^verbatim>\<open>job_id\<close> key into a job record. The text of the exception,
  which the handler appends to its log line, is left out.
\<close>

datatype io_step = Read_Request | Read_Job | Import_Openpyxl | Save_Xlsx | Write_Metadata
  | Write_Summary | Write_Zip | Write_Job | Write_Result

datatype worker_error = IO_Failed io_step | RuntimeError string

definition attempt :: "(io_step \<Rightarrow> bool) \<Rightarrow> io_step \<Rightarrow> (worker_error, unit) io" where
  "attempt faults s = (if faults s then raise (IO_Failed s) else return ())"

definition log :: "string \<Rightarrow> ('e, unit) io" where
  "log msg = then_do now_ts (\<lambda>ts w. (Inr (), w\<lparr>log_lines := log_lines w @ [(ts, msg)]\<rparr>))"

definition unlink_request :: "string \<Rightarrow> ('e, unit) io" where
  "unlink_request name w =
     (Inr (), perform (Unlink (Req_File name)) (w\<lparr>requests := (requests w)(name := None)\<rparr>))"

definition create_output :: "fs_op \<Rightarrow> path \<Rightarrow> ('e, unit) io" where
  "create_output op p w = (Inr (), perform op (w\<lparr>outputs := insert p (outputs w)\<rparr>))"

definition generate_xlsx_for_job :: "(io_step \<Rightarrow> bool) \<Rightarrow> job \<Rightarrow> (worker_error, path) io" where
  "generate_xlsx_for_job faults j =
     (if faults Import_Openpyxl then
        raise (RuntimeError ''openpyxl is required (pip install openpyxl).'')
      else
        let jid = id_field j in
        if jid = [] then raise (RuntimeError ''job missing id'')
        else
          let xlsx_path = Output_Xlsx jid in
          then_do (attempt faults Save_Xlsx) (\<lambda>_.
          then_do (create_output (Write_Bytes xlsx_path) xlsx_path) (\<lambda>_.
          return xlsx_path)))"

definition build_zip_bundle :: "(io_step \<Rightarrow> bool) \<Rightarrow> job \<Rightarrow> (worker_error, path) io" where
  "build_zip_bundle faults j =
     (let jid = id_field j in
      if jid = [] then raise (RuntimeError ''job missing id'')
      else
        let meta_path = Metadata_Json jid;
            summary_path = Summary_Txt jid;
            zip_path = Bundle_Zip jid
        in
        then_do (attempt faults Write_Metadata) (\<lambda>_.
        then_do (\<lambda>w. (Inr (),
                  write_json meta_path (\<lambda>w. w\<lparr>outputs := insert meta_path (outputs w)\<rparr>) w)) (\<lambda>_.
        then_do (attempt faults Write_Summary) (\<lambda>_.
        then_do (create_output (Write_Text summary_path) summary_path) (\<lambda>_.
        then_do (attempt faults Write_Zip) (\<lambda>_.
        then_do (create_output (Write_Bytes zip_path) zip_path) (\<lambda>_.
        return zip_path)))))))"

definition process_request :: "(io_step \<Rightarrow> bool) \<Rightarrow> string \<Rightarrow> (worker_error, unit) io" where
  \<comment> \<open>\<open>name\<close> is the stem of the request file, \<^verbatim>\<open>req_path.name\<close> without \<^verbatim>\<open>.json\<close>.\<close>
  "process_request faults name =
     then_do (attempt faults Read_Request) (\<lambda>_ w.
     case requests w name of
       None \<Rightarrow> raise (IO_Failed Read_Request) w
     | Some req \<Rightarrow>
        (let job_id = req_job_id req in
         if job_id = [] then
           then_do (log (''SKIP bad request (no job_id): '' @ name @ ''.json'')) (\<lambda>_.
           unlink_request name) w
         else
           case jobs w job_id of
             None \<Rightarrow>
               then_do (log (''JOB_NOT_FOUND '' @ job_id @ '' (request '' @ name @ ''.json)'')) (\<lambda>_.
               unlink_request name) w
           | Some j \<Rightarrow>
               (then_do (attempt faults Read_Job) (\<lambda>_.
                then_do (log (''PROCESSING '' @ name @ ''.json'')) (\<lambda>_.
                then_do (generate_xlsx_for_job faults j) (\<lambda>xlsx_path.
                then_do now_ts (\<lambda>done.
                let j1 = j\<lparr>paths := (paths j)(''output_xlsx'' \<mapsto> xlsx_path),
                           status := ''done'', done_at := Some done\<rparr> in
                then_do (build_zip_bundle faults j1) (\<lambda>zip_path.
                let j2 = j1\<lparr>paths := (paths j1)(''bundle_zip'' \<mapsto> zip_path)\<rparr> in
                then_do (attempt faults Write_Job) (\<lambda>_.
                then_do (\<lambda>w. (Inr (),
                          write_json (Job_File job_id) (\<lambda>w. w\<lparr>jobs := (jobs w)(job_id \<mapsto> j2)\<rparr>) w)) (\<lambda>_.
                let res = \<lparr>res_job_id = job_id, res_ok = True, res_done_at = done,
                             res_paths = paths j2\<rparr> in
                then_do (attempt faults Write_Result) (\<lambda>_.
                then_do (\<lambda>w. (Inr (),
                          write_json (Res_File job_id) (\<lambda>w. w\<lparr>results := (results w)(job_id \<mapsto> res)\<rparr>) w)) (\<lambda>_.
                then_do (unlink_request name) (\<lambda>_.
                log (''DONE '' @ name @ ''.json'')))))))))))) w))"

definition handle_request :: "(io_step \<Rightarrow> bool) \<Rightarrow> string \<Rightarrow> world \<Rightarrow> world" where
  \<comment> \<open>The body of the \<^verbatim>\<open>for\<close> loop of \<^verbatim>\<open>main\<close>: \<^verbatim>\<open>try\<close> and \<^verbatim>\<open>except Exception\<close>.\<close>
  "handle_request faults name w =
     (case process_request faults name w of
        (Inl e, w') \<Rightarrow>
          snd ((then_do (log (''ERROR processing '' @ name @ ''.json'')) (\<lambda>_.
                unlink_request name) :: (worker_error, unit) io) w')
      | (Inr _, w') \<Rightarrow> w')"

definition worker_pass :: "(string \<Rightarrow> io_step \<Rightarrow> bool) \<Rightarrow> string list \<Rightarrow> world \<Rightarrow> world" where
  \<comment> \<open>One round of the loop over the listing \<open>names\<close> of the requests directory.\<close>
  "worker_pass faults names w = fold (\<lambda>name. handle_request (faults name) name) names w"

definition queued_job :: job where
  "queued_job = paid_job\<lparr>status := ''queued'',
     paths := (paths paid_job)(''bridge_request'' \<mapsto> Req_File ''job_1'')\<rparr>"

definition queued_world :: world where
  \<comment> \<open>The state after a successful \<^verbatim>\<open>start\<close> of \<^verbatim>\<open>job_1\<close>.\<close>
  "queued_world = snd (start ''job_1'' paid_world)"

definition job_1_request :: bridge_request where
  "job_1_request = \<lparr>kind = ''twickell_pdf_to_xlsx'', req_job_id = ''job_1'',
     req_created_at = ''2024-01-01T00:00:00Z'', input_pdf = Input_Pdf ''job_1'',
     output_dir = Output_Dir ''job_1'', notes_pages = 3, notes_free_sample_applied = False,
     notes_retention_days = 7\<rparr>"

definition dropped_world :: world where
  \<comment> \<open>The job is queued and its request file is gone.\<close>
  "dropped_world = queued_world\<lparr>requests := Map.empty\<rparr>"

definition only :: "io_step \<Rightarrow> io_step \<Rightarrow> bool" where
  \<comment> \<open>The fault in which exactly one step raises.\<close>
  "only s = (\<lambda>s'. s' = s)"

subsection \<open>Properties of \<^verbatim>\<open>should_delete\<close>\<close>

lemma truthy_str_iff: "truthy_str v \<longleftrightarrow> (\<exists>s. v = Some s \<and> s \<noteq> [])"
  by (cases v) (simp_all add: truthy_str_def)

lemma should_delete_not_terminal:
  "status j \<notin> {''done'', ''failed''} \<Longrightarrow> should_delete fromiso now j = Inr False"
  by (simp add: should_delete_def)

lemma should_delete_zero:
  assumes "status j \<in> {''done'', ''failed''}" and "truthy_str (created_at j)"
    and "retention_days j = Some 0"
    and "now \<le> DT_MAX" and "valid_instants fromiso"
  shows "should_delete fromiso now j = Inr True \<longleftrightarrow>
     (\<exists>d t. done_at j = Some d \<and> d \<noteq> [] \<and> fromiso d = Some t \<and> t + 3600 * 1000000 \<le> now)"
proof (cases "truthy_str (done_at j)")
  case False
  then show ?thesis using assms(1-3)
    by (auto simp: should_delete_def truthy_str_iff)
next
  case True
  then obtain d where d: "done_at j = Some d" "d \<noteq> []"
    by (auto simp: truthy_str_iff)
  show ?thesis
  proof (cases "fromiso d")
    case None
    then show ?thesis using assms(1-3) True d
      by (simp add: should_delete_def parse_iso_def and_then_def)
  next
    case (Some t)
    from assms(5) Some have "DT_MIN \<le> t" by (simp add: valid_instants_def)
    then show ?thesis using assms(1-4) True d Some
      by (auto simp: should_delete_def parse_iso_def and_then_def dt_add_def DT_MIN_def
          timedelta_seconds_def RETENTION_ZERO_DONE_BUFFER_SECONDS_def)
  qed
qed

lemma should_delete_days:
  assumes "status j \<in> {''done'', ''failed''}" and "created_at j = Some c" and "c \<noteq> []"
    and "(case retention_days j of None \<Rightarrow> 7 | Some n \<Rightarrow> n) = k" and "0 < k" and "k \<le> 999999999"
    and "now \<le> DT_MAX" and "valid_instants fromiso"
  shows "should_delete fromiso now j = Inr True \<longleftrightarrow>
     (\<exists>t. fromiso c = Some t \<and> t + k * 86400 * 1000000 \<le> now)"
proof (cases "fromiso c")
  case None
  then show ?thesis using assms(1-5)
    by (simp add: should_delete_def truthy_str_def parse_iso_def and_then_def)
next
  case (Some t)
  from assms(8) Some have "DT_MIN \<le> t" by (simp add: valid_instants_def)
  moreover have "0 \<le> k * 86400 * 1000000" using assms(5) by simp
  ultimately have "DT_MIN \<le> t + k * 86400 * 1000000" by linarith
  then show ?thesis using assms(1-7) Some
    by (auto simp: should_delete_def truthy_str_def parse_iso_def and_then_def dt_add_def
        timedelta_days_def)
qed

text \<open>
  C2. For every job record (with \<open>retention_days\<close> one of 0, 7, 30, as the data model
  has it and \<^verbatim>\<open>upload_pdf\<close> enforces), the deletion predicate holds if and only if
  the status is \<open>done\<close> or \<open>failed\<close>, the creation timestamp is present and non-empty,
  and either the retention is 0, \<open>done_at\<close> is present and now is at least one hour
  after it, or the retention is 7 or 30 and now is at least that many days after
  \<open>created_at\<close>, whatever the completion time; and a job that is not in a terminal
  status is never deleted.
\<close>

theorem should_delete_iff:
  assumes "retention_days j \<in> {Some 0, Some 7, Some 30}"
    and "now \<le> DT_MAX"
    and "valid_instants fromiso"
  shows "(should_delete fromiso now j = Inr True \<longleftrightarrow>
      status j \<in> {''done'', ''failed''} \<and>
      (\<exists>c. created_at j = Some c \<and> c \<noteq> []) \<and>
      ((retention_days j = Some 0 \<and>
          (\<exists>d t. done_at j = Some d \<and> d \<noteq> [] \<and> fromiso d = Some t \<and>
                 t + 3600 * 1000000 \<le> now))
       \<or> (\<exists>n c t. n \<in> {7, 30} \<and> retention_days j = Some n \<and> created_at j = Some c \<and>
                 fromiso c = Some t \<and> t + n * 86400 * 1000000 \<le> now)))
    \<and> (status j \<notin> {''done'', ''failed''} \<longrightarrow> should_delete fromiso now j = Inr False)"
proof (intro conjI impI)
  show "should_delete fromiso now j = Inr False" if "status j \<notin> {''done'', ''failed''}"
    using that by (rule should_delete_not_terminal)
next
  show "should_delete fromiso now j = Inr True \<longleftrightarrow>
      status j \<in> {''done'', ''failed''} \<and>
      (\<exists>c. created_at j = Some c \<and> c \<noteq> []) \<and>
      ((retention_days j = Some 0 \<and>
          (\<exists>d t. done_at j = Some d \<and> d \<noteq> [] \<and> fromiso d = Some t \<and>
                 t + 3600 * 1000000 \<le> now))
       \<or> (\<exists>n c t. n \<in> {7, 30} \<and> retention_days j = Some n \<and> created_at j = Some c \<and>
                 fromiso c = Some t \<and> t + n * 86400 * 1000000 \<le> now))"
  proof (cases "status j \<in> {''done'', ''failed''} \<and> truthy_str (created_at j)")
    case False
    then show ?thesis
      by (auto simp: should_delete_def truthy_str_iff)
  next
    case True
    then obtain c where c: "created_at j = Some c" "c \<noteq> []"
      by (auto simp: truthy_str_iff)
    from assms(1) consider "retention_days j = Some 0" | "retention_days j = Some 7"
      | "retention_days j = Some 30" by auto
    then show ?thesis
    proof cases
      case 1
      with should_delete_zero[OF _ _ 1 assms(2,3), of ] True c show ?thesis by auto
    next
      case 2
      have "should_delete fromiso now j = Inr True \<longleftrightarrow>
          (\<exists>t. fromiso c = Some t \<and> t + 7 * 86400 * 1000000 \<le> now)"
        using True 2 by (intro should_delete_days[OF _ c _ _ _ assms(2,3)]) auto
      with True c 2 show ?thesis by auto
    next
      case 3
      have "should_delete fromiso now j = Inr True \<longleftrightarrow>
          (\<exists>t. fromiso c = Some t \<and> t + 30 * 86400 * 1000000 \<le> now)"
        using True 3 by (intro should_delete_days[OF _ c _ _ _ assms(2,3)]) auto
      with True c 3 show ?thesis by auto
    qed
  qed
qed

theorem should_delete_iff_witness:
  "should_delete iso_2024 (63839664000000000 + 7 * 86400 * 1000000) done_job = Inr True"
proof -
  have ret: "retention_days done_job \<in> {Some 0, Some 7, Some 30}"
    by (simp add: done_job_def)
  have now: "63839664000000000 + 7 * 86400 * 1000000 \<le> DT_MAX"
    by (simp add: DT_MAX_def)
  have iso: "valid_instants iso_2024"
    by (simp add: valid_instants_def iso_2024_def DT_MIN_def DT_MAX_def)
  show ?thesis
    using should_delete_iff[OF ret now iso]
    by (simp add: done_job_def iso_2024_def)
qed

text \<open>
  C10. A job record without a \<open>retention_days\<close> field is treated as one with seven
  days: when its status is terminal it is eligible for deletion exactly when its
  creation timestamp is present, non-empty and parsed, and now is at least seven days
  after it.
\<close>

theorem should_delete_default_retention:
  assumes "retention_days j = None"
    and "status j \<in> {''done'', ''failed''}"
    and "now \<le> DT_MAX"
    and "valid_instants fromiso"
  shows "(should_delete fromiso now j = Inr True \<longleftrightarrow>
      (\<exists>c t. created_at j = Some c \<and> c \<noteq> [] \<and> fromiso c = Some t \<and>
             t + 7 * 86400 * 1000000 \<le> now))
    \<and> should_delete fromiso now j = should_delete fromiso now (j\<lparr>retention_days := Some 7\<rparr>)"
proof
  show "should_delete fromiso now j = Inr True \<longleftrightarrow>
      (\<exists>c t. created_at j = Some c \<and> c \<noteq> [] \<and> fromiso c = Some t \<and>
             t + 7 * 86400 * 1000000 \<le> now)"
  proof (cases "truthy_str (created_at j)")
    case False
    then show ?thesis
      by (auto simp: should_delete_def truthy_str_iff)
  next
    case True
    then obtain c where c: "created_at j = Some c" "c \<noteq> []"
      by (auto simp: truthy_str_iff)
    have "should_delete fromiso now j = Inr True \<longleftrightarrow>
        (\<exists>t. fromiso c = Some t \<and> t + 7 * 86400 * 1000000 \<le> now)"
      using assms(1) by (intro should_delete_days[OF assms(2) c _ _ _ assms(3,4)]) auto
    with c show ?thesis by auto
  qed
next
  show "should_delete fromiso now j = should_delete fromiso now (j\<lparr>retention_days := Some 7\<rparr>)"
    using assms(1) by (simp add: should_delete_def)
qed

theorem should_delete_default_retention_witness:
  "should_delete iso_2024 (63839664000000000 + 7 * 86400 * 1000000)
     (done_job\<lparr>retention_days := None\<rparr>) = Inr True
   \<and> should_delete iso_2024 (63839664000000000 + 7 * 86400 * 1000000 - 1)
     (done_job\<lparr>retention_days := None\<rparr>) \<noteq> Inr True"
proof -
  let ?j = "done_job\<lparr>retention_days := None\<rparr>"
  have ret: "retention_days ?j = None" by simp
  have st: "status ?j \<in> {''done'', ''failed''}" by (simp add: done_job_def)
  have iso: "valid_instants iso_2024"
    by (simp add: valid_instants_def iso_2024_def DT_MIN_def DT_MAX_def)
  have n1: "63839664000000000 + 7 * 86400 * 1000000 \<le> DT_MAX" by (simp add: DT_MAX_def)
  have n2: "63839664000000000 + 7 * 86400 * 1000000 - 1 \<le> DT_MAX" by (simp add: DT_MAX_def)
  show ?thesis
    using should_delete_default_retention[OF ret st n1 iso, THEN conjunct1]
      should_delete_default_retention[OF ret st n2 iso, THEN conjunct1]
    by (simp add: done_job_def iso_2024_def)
qed

text \<open>The one-hour buffer of the zero-day retention: with \<open>done_at\<close> parsed as \<open>T\<close>, a
  finished job is kept at \<open>T\<close> + 59 minutes and deleted at \<open>T\<close> + 61 minutes.\<close>

lemma should_delete_zero_59_61:
  assumes "status j \<in> {''done'', ''failed''}" and "truthy_str (created_at j)"
    and "retention_days j = Some 0" and "done_at j = Some d" and "d \<noteq> []"
    and "fromiso d = Some T" and "DT_MIN \<le> T" and "T + 61 * 60 * 1000000 \<le> DT_MAX"
  shows "should_delete fromiso (T + 59 * 60 * 1000000) j = Inr False"
    and "should_delete fromiso (T + 61 * 60 * 1000000) j = Inr True"
  using assms
  by (simp_all add: should_delete_def truthy_str_def parse_iso_def and_then_def dt_add_def
      timedelta_seconds_def RETENTION_ZERO_DONE_BUFFER_SECONDS_def DT_MIN_def)

subsection \<open>Properties of \<^verbatim>\<open>calc_base_amount\<close>\<close>

lemma bit_length_bounds:
  "0 < n \<Longrightarrow> 2 ^ (bit_length n - 1) \<le> n \<and> n < 2 ^ bit_length n"
proof (induction n rule: bit_length.induct)
  case (1 n)
  show ?case
  proof (cases "n div 2 = 0")
    case True
    with 1 have "n = 1" by linarith
    then show ?thesis by (simp add: bit_length.simps)
  next
    case False
    with 1 have pos: "0 < n div 2" by linarith
    from 1 pos have ih: "2 ^ (bit_length (n div 2) - 1) \<le> n div 2 \<and> n div 2 < 2 ^ bit_length (n div 2)"
      by simp
    have bl: "bit_length n = Suc (bit_length (n div 2))"
      using 1 by (subst bit_length.simps) simp
    have "0 < bit_length (n div 2)" using pos by (subst bit_length.simps) simp
    then obtain k where k: "bit_length (n div 2) = Suc k" by (cases "bit_length (n div 2)") auto
    from ih k have "2 ^ k \<le> n div 2" "n div 2 < 2 ^ Suc k" by simp_all
    then have "2 * 2 ^ k \<le> n" "n < 2 * 2 ^ Suc k" by linarith+
    then show ?thesis by (simp add: bl k)
  qed
qed

lemma bit_length_pos: "0 < n \<Longrightarrow> 0 < bit_length n"
  by (subst bit_length.simps) simp

lemma pow2_pos: "0 < pow2 k"
  by (simp add: pow2_def)

lemma pow2_diff: "pow2 (int m - int n) = 2 ^ m / 2 ^ n"
proof (cases "n \<le> m")
  case True
  then have "nat (int m - int n) = m - n" by simp
  with True show ?thesis by (simp add: pow2_def power_diff)
next
  case False
  then have "nat (- (int m - int n)) = n - m" by simp
  moreover have "(2::rat) ^ n = 2 ^ m * 2 ^ (n - m)"
    using False by (simp flip: power_add)
  ultimately show ?thesis using False by (simp add: pow2_def)
qed

lemma pow2_mono: "a \<le> b \<Longrightarrow> pow2 a \<le> pow2 b"
proof -
  assume ab: "a \<le> b"
  have "pow2 a = 2 ^ nat (a + \<bar>a\<bar> + \<bar>b\<bar>) / 2 ^ nat (\<bar>a\<bar> + \<bar>b\<bar>)"
    using pow2_diff[of "nat (a + \<bar>a\<bar> + \<bar>b\<bar>)" "nat (\<bar>a\<bar> + \<bar>b\<bar>)"] by simp
  moreover have "pow2 b = 2 ^ nat (b + \<bar>a\<bar> + \<bar>b\<bar>) / 2 ^ nat (\<bar>a\<bar> + \<bar>b\<bar>)"
    using ab pow2_diff[of "nat (b + \<bar>a\<bar> + \<bar>b\<bar>)" "nat (\<bar>a\<bar> + \<bar>b\<bar>)"] by simp
  moreover have "(2::rat) ^ nat (a + \<bar>a\<bar> + \<bar>b\<bar>) \<le> 2 ^ nat (b + \<bar>a\<bar> + \<bar>b\<bar>)"
    using ab by (intro power_increasing) auto
  ultimately show ?thesis by (simp add: divide_right_mono)
qed

lemma binary_exponent_le:
  assumes "0 < a" "0 < b"
  shows "pow2 (binary_exponent a b) \<le> of_int a / of_int b"
proof -
  let ?la = "bit_length a" and ?lb = "bit_length b"
  let ?x = "(of_int a / of_int b) :: rat"
  have xpos: "0 < ?x" using assms by simp
  show ?thesis
  proof (cases "?x < pow2 (int ?la - int ?lb)")
    case False
    then show ?thesis using assms xpos by (simp add: binary_exponent_def Let_def)
  next
    case True
    from bit_length_pos[OF assms(1)] obtain k where k: "?la = Suc k"
      by (cases ?la) auto
    from bit_length_bounds[OF assms(1)] k have a: "2 ^ k \<le> a" by simp
    from bit_length_bounds[OF assms(2)] have b: "b < 2 ^ ?lb" by simp
    have "pow2 (int ?la - int ?lb - 1) = pow2 (int k - int ?lb)" by (simp add: k)
    also have "\<dots> = 2 ^ k / 2 ^ ?lb" by (rule pow2_diff)
    also have "\<dots> \<le> of_int a / 2 ^ ?lb"
    proof -
      have "(2::rat) ^ k \<le> of_int a" using a by (metis of_int_le_iff of_int_numeral of_int_power)
      then show ?thesis by (simp add: divide_right_mono)
    qed
    also have "\<dots> \<le> of_int a / of_int b"
    proof -
      have "(of_int b :: rat) \<le> 2 ^ ?lb" using b by (metis less_imp_le of_int_le_iff of_int_numeral of_int_power)
      then show ?thesis using assms by (intro divide_left_mono) auto
    qed
    finally show ?thesis using True assms xpos by (simp add: binary_exponent_def Let_def)
  qed
qed

lemma round_half_even_int: "round_half_even (of_int k) = k"
  by (simp add: round_half_even_def)

lemma round_half_even_near: "\<bar>of_int (round_half_even y) - y\<bar> \<le> 1 / 2"
proof -
  have "of_int \<lfloor>y\<rfloor> \<le> y" "y < of_int \<lfloor>y\<rfloor> + 1" by linarith+
  then show ?thesis by (auto simp: round_half_even_def Let_def abs_le_iff)
qed

lemma pow2_49: "pow2 49 = 562949953421312"
  unfolding pow2_def by simp

lemma pow2_m4: "pow2 (- 4) = 1 / 16"
  unfolding pow2_def by simp

lemma pow2_1024_big: "(2::rat) ^ 50 \<le> pow2 1024"
proof -
  have "pow2 1024 = 2 ^ 1024" unfolding pow2_def by simp
  moreover have "(2::rat) ^ 50 \<le> 2 ^ 1024" by (rule power_increasing) simp_all
  ultimately show ?thesis by (simp only:)
qed

lemma pow2_inv: "q \<le> 0 \<Longrightarrow> 1 / pow2 q = of_int (2 ^ nat (- q))"
  by (cases "q = 0") (simp_all add: pow2_def)

lemma rounded_near:
  assumes "0 < s" "s \<le> 1 / 16"
  shows "\<bar>of_int (round_half_even (x / s)) * s - x\<bar> \<le> 1 / 32"
proof -
  let ?m = "round_half_even (x / s)"
  have "\<bar>of_int ?m - x / s\<bar> \<le> 1 / 2" by (rule round_half_even_near)
  then have "\<bar>of_int ?m - x / s\<bar> * s \<le> 1 / 2 * s"
    using assms(1) by (intro mult_right_mono) auto
  moreover have "(of_int ?m - x / s) * s = of_int ?m * s - x"
    using assms(1) by (simp add: left_diff_distrib)
  then have "\<bar>of_int ?m * s - x\<bar> = \<bar>of_int ?m - x / s\<bar> * s"
    using assms(1) by (metis abs_mult abs_of_pos)
  ultimately show ?thesis using assms(2) by linarith
qed

lemma rounded_exact:
  assumes "0 < s" "1 / s = of_int n"
  shows "of_int (round_half_even (of_int k / s)) * s = of_int k"
proof -
  have "of_int k / s = of_int k * (1 / s)" by simp
  also have "\<dots> = of_int (k * n)" by (simp only: assms(2) of_int_mult)
  finally have "round_half_even (of_int k / s) = k * n" by (simp only: round_half_even_int)
  moreover have "of_int n * s = (1::rat)" using assms by (metis nonzero_divide_eq_eq less_irrefl mult.commute mult_1)
  ultimately show ?thesis by (simp add: mult.assoc)
qed

lemma between_blocks:
  assumes "p mod 25 \<noteq> 0"
  shows "of_int (p div 25) + 1 / 25 \<le> (of_int p :: rat) / 25"
    and "(of_int p :: rat) / 25 \<le> of_int (p div 25) + 24 / 25"
proof -
  define k where "k = p div 25"
  have p: "p = 25 * k + p mod 25" by (simp add: k_def)
  have "0 \<le> p mod 25" "p mod 25 < 25" by simp_all
  with assms have "1 \<le> p mod 25" "p mod 25 \<le> 24" by linarith+
  then have "25 * k + 1 \<le> p" "p \<le> 25 * k + 24" using p by linarith+
  then have "of_int (25 * k + 1) \<le> (of_int p :: rat)" "(of_int p :: rat) \<le> of_int (25 * k + 24)"
    by (simp_all only: of_int_le_iff)
  then show "of_int (p div 25) + 1 / 25 \<le> (of_int p :: rat) / 25"
    and "(of_int p :: rat) / 25 \<le> of_int (p div 25) + 24 / 25"
    by (simp_all add: k_def field_simps)
qed

lemma ceiling_block: "\<lceil>(of_int p :: rat) / 25\<rceil> = (p - 1) div 25 + 1"
proof (cases "p mod 25 = 0")
  case True
  then obtain k where k: "p = 25 * k" by auto
  have "(of_int p :: rat) / 25 = of_int k" by (simp add: k)
  then have "\<lceil>(of_int p :: rat) / 25\<rceil> = k" by simp
  moreover have "(p - 1) div 25 = k - 1"
    by (rule int_div_pos_eq[where r = 24]) (simp_all add: k)
  ultimately show ?thesis by simp
next
  case False
  have "0 \<le> p mod 25" "p mod 25 < 25" by simp_all
  with False have m: "1 \<le> p mod 25" "p mod 25 \<le> 24" by linarith+
  have p: "p = 25 * (p div 25) + p mod 25" by simp
  have "(p - 1) div 25 = p div 25"
  proof (rule int_div_pos_eq[where r = "p mod 25 - 1"])
    show "p - 1 = 25 * (p div 25) + (p mod 25 - 1)" using p by linarith
    show "0 \<le> p mod 25 - 1" using m by linarith
    show "p mod 25 - 1 < 25" using m by linarith
  qed
  moreover have "\<lceil>(of_int p :: rat) / 25\<rceil> = p div 25 + 1"
    using between_blocks[OF False] by (intro ceiling_unique) simp_all
  ultimately show ?thesis by simp
qed

lemma py_truediv_25_ceiling:
  assumes "1 \<le> p" "p \<le> 2 ^ 53"
  shows "\<exists>r. py_truediv p 25 = Inr r \<and> \<lceil>r\<rceil> = \<lceil>(of_int p :: rat) / 25\<rceil>"
proof -
  let ?x = "(of_int p :: rat) / 25"
  define e where "e = binary_exponent p 25"
  define q where "q = max (e - 52) (- 1074)"
  define s where "s = pow2 q"
  define r where "r = of_int (round_half_even (?x / s)) * s"
  have xpos: "0 < ?x" using assms by simp
  have x_lt: "?x < 562949953421312"
  proof -
    have "(of_int p :: rat) \<le> of_int (2 ^ 53)" using assms(2) by (simp only: of_int_le_iff)
    then show ?thesis by simp
  qed
  have "pow2 e \<le> of_int p / of_int 25" unfolding e_def using assms by (intro binary_exponent_le) auto
  then have "pow2 e < pow2 49" using x_lt by (simp add: pow2_49)
  then have "e < 49" using pow2_mono[of 49 e] by (cases "e < 49") auto
  then have q_le: "q \<le> - 4" by (simp add: q_def)
  then have s_le: "s \<le> 1 / 16"
    using pow2_mono[of q "- 4"] by (simp add: s_def pow2_m4)
  have s_pos: "0 < s" by (simp add: s_def pow2_pos)
  have s_inv: "1 / s = of_int (2 ^ nat (- q))"
    unfolding s_def using q_le by (intro pow2_inv) simp
  have near: "\<bar>r - ?x\<bar> \<le> 1 / 32"
    unfolding r_def using s_pos s_le by (rule rounded_near)
  have no_ovf: "\<not> pow2 1024 \<le> r"
  proof -
    from near have "r \<le> ?x + 1 / 32" by linarith
    with x_lt have "r < 1125899906842624" by linarith
    moreover have "(1125899906842624::rat) = 2 ^ 50" by simp
    ultimately show ?thesis using pow2_1024_big by linarith
  qed
  have ap: "\<bar>(of_int p :: rat)\<bar> = of_int p" using assms by simp
  have div: "py_truediv p 25 = Inr r"
    using assms(1) no_ovf
    unfolding py_truediv_def Let_def r_def s_def q_def e_def
    by (simp add: ap)
  have "\<lceil>r\<rceil> = \<lceil>?x\<rceil>"
  proof (cases "p mod 25 = 0")
    case True
    then obtain k where k: "p = 25 * k" by auto
    have "?x = of_int k" by (simp add: k)
    then have "r = ?x" unfolding r_def using rounded_exact[OF s_pos s_inv, of k] by simp
    then show ?thesis by (rule arg_cong)
  next
    case False
    note lo = between_blocks(1)[OF False] and hi = between_blocks(2)[OF False]
    from near have r: "?x - 1 / 32 \<le> r" "r \<le> ?x + 1 / 32" by linarith+
    have "\<lceil>r\<rceil> = p div 25 + 1"
    proof (rule ceiling_unique)
      show "of_int (p div 25 + 1) - 1 < r" using r(1) lo by simp
      show "r \<le> of_int (p div 25 + 1)" using r(2) hi by simp
    qed
    moreover have "\<lceil>?x\<rceil> = p div 25 + 1"
      using lo hi by (intro ceiling_unique) simp_all
    ultimately show ?thesis by simp
  qed
  with div show ?thesis by simp
qed

lemma calc_base_amount_exact:
  assumes "1 \<le> p" "p \<le> 2 ^ 53"
  shows "calc_base_amount p = Inr (((p - 1) div 25 + 1) * 25)"
proof -
  from py_truediv_25_ceiling[OF assms] obtain r
    where "py_truediv p 25 = Inr r" "\<lceil>r\<rceil> = \<lceil>(of_int p :: rat) / 25\<rceil>" by blast
  then show ?thesis
    by (simp add: calc_base_amount_def and_then_def PRICE_BLOCK_PAGES_def PRICE_PER_BLOCK_def
        ceiling_block)
qed

lemma calc_base_amount_0: "calc_base_amount 0 = Inr 0"
  by (simp add: calc_base_amount_def and_then_def py_truediv_def PRICE_BLOCK_PAGES_def)

lemma calc_base_amount_huge:
  "calc_base_amount 225179981368524801 = Inr 225179981368524800"
  by code_simp

text \<open>
  C4. For every integer page count \<open>n \<ge> 1\<close> that \<^verbatim>\<open>calc_base_amount\<close> can be called
  with, the base price is \<open>ceil (n / 25) * 25\<close>; it is at least 25, it is the same for all
  page counts of one block of 25 pages, and it grows by 25 from one block to the next.
  Both callers, \<^verbatim>\<open>quote\<close> and \<^verbatim>\<open>upload_pdf\<close>, reject a page count above
  \<^verbatim>\<open>MAX_PAGES = 200\<close> before the call; the statement is proved for every page count
  up to \<open>2 ^ 53\<close>, where the floating-point division is exact enough for the ceiling.
\<close>

theorem calc_base_amount_blocks:
  assumes "1 \<le> n" and "n \<le> 2 ^ 53"
  shows "calc_base_amount n = Inr (\<lceil>(of_int n :: rat) / 25\<rceil> * 25)
    \<and> \<lceil>(of_int n :: rat) / 25\<rceil> * 25 = ((n - 1) div 25 + 1) * 25
    \<and> 25 \<le> \<lceil>(of_int n :: rat) / 25\<rceil> * 25"
proof -
  have "0 \<le> (n - 1) div 25" using assms(1) by (simp add: pos_imp_zdiv_nonneg_iff)
  then show ?thesis
    using calc_base_amount_exact[OF assms] by (simp add: ceiling_block)
qed

theorem calc_base_amount_blocks_witness:
  "calc_base_amount 1 = Inr 25 \<and> calc_base_amount 26 = Inr 50"
  using calc_base_amount_blocks[of 1] calc_base_amount_blocks[of 26]
  by (simp add: ceiling_block)

text \<open>Far beyond the cap the rounding of the division shows: \<open>25 * 2 ^ 53 + 1\<close> pages
  are priced as \<open>2 ^ 53\<close> blocks.\<close>

lemma calc_base_amount_rounds_down:
  "calc_base_amount 225179981368524801
     \<noteq> Inr (\<lceil>(of_int 225179981368524801 :: rat) / 25\<rceil> * 25)"
  by (simp only: calc_base_amount_huge ceiling_block) simp

lemmas io_defs = then_do_def return_def raise_def perform_def now_ts_def

lemma start_unpaid:
  "jobs w job_id = Some j \<Longrightarrow> \<not> paid j \<Longrightarrow>
   start job_id w = (Inl (HTTPException 402 (Text ''payment_required'')), w)"
  by (simp add: start_def read_job_def io_defs)

lemma start_queued:
  "jobs w job_id = Some j \<Longrightarrow> paid j \<Longrightarrow> status j = ''queued'' \<Longrightarrow>
   start job_id w =
     (Inr \<lparr>reply_job = j, reply_note = Some ''already_queued'', queued_request = None\<rparr>, w)"
  by (simp add: start_def read_job_def io_defs)

lemma start_invalid:
  "jobs w job_id = Some j \<Longrightarrow> paid j \<Longrightarrow> status j \<notin> {''uploaded'', ''paid'', ''queued''} \<Longrightarrow>
   start job_id w = (Inl (HTTPException 409 (Invalid_Status_For_Start (status j))), w)"
  by (simp add: start_def read_job_def io_defs)

lemma start_transition:
  assumes "jobs w job_id = Some j" and "id_field j = job_id"
    and "paths j ''input_pdf'' = Some pdf"
    and "paid j" and "status j \<in> {''uploaded'', ''paid''}"
  shows "\<exists>r w' req. start job_id w = (Inr r, w')
    \<and> jobs w' = (jobs w)(job_id \<mapsto> reply_job r)
    \<and> status (reply_job r) = ''queued''
    \<and> paid (reply_job r)
    \<and> id_field (reply_job r) = job_id
    \<and> paths (reply_job r) = (paths j)(''bridge_request'' \<mapsto> Req_File job_id)
    \<and> queued_request r = Some (Req_File job_id)
    \<and> requests w' = (requests w)(job_id \<mapsto> req)
    \<and> req_job_id req = job_id
    \<and> trace w' = trace w @ [Write_Text (Job_File job_id), Write_Text (Req_File job_id),
                              Write_Text (Job_File job_id)]"
  using assms
  by (auto simp: start_def read_job_def update_job_def write_job_def write_bridge_request_def
      io_defs Let_def)

lemma start_keyerror:
  assumes "jobs w job_id = Some j" and "id_field j = job_id"
    and "paths j ''input_pdf'' = None"
    and "paid j" and "status j \<in> {''uploaded'', ''paid''}"
  shows "fst (start job_id w) = Inl (Unhandled (KeyError ''input_pdf''))"
  using assms
  by (auto simp: start_def read_job_def update_job_def write_job_def write_bridge_request_def
      io_defs Let_def)

lemma start_ok_cases:
  assumes "jobs w job_id = Some j" and "start job_id w = (Inr r, w')"
  shows "paid j \<and> status j \<in> {''uploaded'', ''paid'', ''queued''}"
proof -
  have "paid j" using assms start_unpaid[of w job_id j] by (cases "paid j") auto
  moreover have "status j \<in> {''uploaded'', ''paid'', ''queued''}"
    using assms \<open>paid j\<close> start_invalid[of w job_id j]
    by (cases "status j \<in> {''uploaded'', ''paid'', ''queued''}") auto
  ultimately show ?thesis by simp
qed

text \<open>
  C1. For every existing job, \<open>start\<close> fails with 402 \<open>payment_required\<close> when the job is
  not paid. When it is paid: with status \<open>queued\<close> the call changes nothing and returns
  the job; with a status outside \<open>uploaded\<close>, \<open>paid\<close>, \<open>queued\<close> it fails with 409 carrying
  that status; otherwise (the record being stored under its own id with its
  \<open>input_pdf\<close> path, as \<open>upload_pdf\<close> writes it) the status becomes \<open>queued\<close>, exactly one
  request file is written, and its path is recorded under \<open>paths.bridge_request\<close>.
\<close>

theorem start_cases:
  assumes "jobs w job_id = Some j"
  shows "(\<not> paid j \<longrightarrow>
        start job_id w = (Inl (HTTPException 402 (Text ''payment_required'')), w))
    \<and> (paid j \<and> status j = ''queued'' \<longrightarrow>
        (\<exists>r. start job_id w = (Inr r, w) \<and> reply_job r = j))
    \<and> (paid j \<and> status j \<notin> {''uploaded'', ''paid'', ''queued''} \<longrightarrow>
        start job_id w = (Inl (HTTPException 409 (Invalid_Status_For_Start (status j))), w))
    \<and> (paid j \<and> status j \<in> {''uploaded'', ''paid''} \<and> id_field j = job_id
          \<and> paths j ''input_pdf'' \<noteq> None \<longrightarrow>
        (\<exists>r w'. start job_id w = (Inr r, w')
           \<and> status (reply_job r) = ''queued''
           \<and> jobs w' = (jobs w)(job_id \<mapsto> reply_job r)
           \<and> paths (reply_job r) ''bridge_request'' = Some (Req_File job_id)
           \<and> requests w' job_id \<noteq> None
           \<and> (\<forall>k. k \<noteq> job_id \<longrightarrow> requests w' k = requests w k)
           \<and> trace w' = trace w @ [Write_Text (Job_File job_id), Write_Text (Req_File job_id),
                                     Write_Text (Job_File job_id)]))"
proof (intro conjI impI)
  show "start job_id w = (Inl (HTTPException 402 (Text ''payment_required'')), w)"
    if "\<not> paid j" using assms that by (rule start_unpaid)
  show "\<exists>r. start job_id w = (Inr r, w) \<and> reply_job r = j" if "paid j \<and> status j = ''queued''"
    using start_queued[OF assms] that by simp
  show "start job_id w = (Inl (HTTPException 409 (Invalid_Status_For_Start (status j))), w)"
    if "paid j \<and> status j \<notin> {''uploaded'', ''paid'', ''queued''}"
    using start_invalid[OF assms] that by simp
  show "\<exists>r w'. start job_id w = (Inr r, w')
           \<and> status (reply_job r) = ''queued''
           \<and> jobs w' = (jobs w)(job_id \<mapsto> reply_job r)
           \<and> paths (reply_job r) ''bridge_request'' = Some (Req_File job_id)
           \<and> requests w' job_id \<noteq> None
           \<and> (\<forall>k. k \<noteq> job_id \<longrightarrow> requests w' k = requests w k)
           \<and> trace w' = trace w @ [Write_Text (Job_File job_id), Write_Text (Req_File job_id),
                                     Write_Text (Job_File job_id)]"
    if h: "paid j \<and> status j \<in> {''uploaded'', ''paid''} \<and> id_field j = job_id
          \<and> paths j ''input_pdf'' \<noteq> None"
  proof -
    from h obtain pdf where pdf: "paths j ''input_pdf'' = Some pdf" by auto
    from start_transition[OF assms _ pdf] h obtain r w' req where
      "start job_id w = (Inr r, w')" "jobs w' = (jobs w)(job_id \<mapsto> reply_job r)"
      "status (reply_job r) = ''queued''"
      "paths (reply_job r) = (paths j)(''bridge_request'' \<mapsto> Req_File job_id)"
      "requests w' = (requests w)(job_id \<mapsto> req)"
      "trace w' = trace w @ [Write_Text (Job_File job_id), Write_Text (Req_File job_id),
                              Write_Text (Job_File job_id)]"
      by blast
    then show ?thesis by simp
  qed
qed

theorem start_cases_witness:
  "\<exists>r w'. start ''job_1'' paid_world = (Inr r, w')
     \<and> status (reply_job r) = ''queued''
     \<and> paths (reply_job r) ''bridge_request'' = Some (Req_File ''job_1'')
     \<and> trace w' = [Write_Text (Job_File ''job_1''), Write_Text (Req_File ''job_1''),
                    Write_Text (Job_File ''job_1'')]"
proof -
  have h: "jobs paid_world ''job_1'' = Some paid_job"
    by (simp add: paid_world_def empty_world_def)
  have p: "paid paid_job \<and> status paid_job \<in> {''uploaded'', ''paid''}
      \<and> id_field paid_job = ''job_1'' \<and> paths paid_job ''input_pdf'' \<noteq> None"
    by (simp add: paid_job_def done_job_def)
  have t: "trace paid_world = []" by (simp add: paid_world_def empty_world_def)
  from start_cases[OF h] p show ?thesis unfolding t by auto
qed

lemma norm_ex: "normalize_email '' A@b.c '' = ''a@b.c''"
  by (simp add: normalize_email_def str_lower_def str_strip_def lower_char_def is_space_def)

lemma fname_ex: "endswith (str_lower ''Doc.PDF'') ''.pdf''"
  by (simp add: endswith_def str_lower_def lower_char_def)

lemma form_valid_ex: "form_valid (form n)"
  by (simp add: form_valid_def form_def norm_ex fname_ex DEFAULT_RETENTION_DAYS_def
      ALLOWED_RETENTION_DAYS_def)

lemma upload_invalid_form:
  "\<not> form_valid up \<Longrightarrow> \<exists>d. upload_pdf new_id up w = (Inl (HTTPException 400 d), w)"
  by (auto simp: form_valid_def upload_pdf_def Let_def raise_def)

lemma upload_over_cap:
  assumes "form_valid up" and "body up = Pdf n" and "MAX_PAGES < int n"
  shows "upload_pdf new_id up w =
    (Inl (HTTPException 413 (Text CAP_REJECT_MSG)),
     w\<lparr>input_pdfs := input_pdfs w - {new_id},
       trace := trace w @ [Write_Bytes (Input_Pdf new_id), Unlink (Input_Pdf new_id)]\<rparr>)"
  using assms
  by (simp add: form_valid_def upload_pdf_def Let_def save_upload_def count_pdf_pages_def
      unlink_input_pdf_def io_defs)

lemma email_can_use_free_sample_eq:
  "\<exists>w'. email_can_use_free_sample e w = (Inr (\<not> ledger_has w e), w')
     \<and> jobs w' = jobs w \<and> free_sample_ledger w' = free_sample_ledger w
     \<and> input_pdfs w' = input_pdfs w \<and> requests w' = requests w \<and> trace w' = trace w"
  by (cases "free_sample_ledger w")
     (auto simp: email_can_use_free_sample_def read_ledger_def ledger_has_def io_defs)

lemma base_amount_small:
  assumes "1 \<le> n" and "int n \<le> MAX_PAGES"
  shows "\<exists>b. calc_base_amount (int n) = Inr b \<and> 0 < b"
proof -
  have "1 \<le> int n" and "int n \<le> 2 ^ 53"
    using assms by (simp_all add: MAX_PAGES_def)
  then have "calc_base_amount (int n) = Inr (((int n - 1) div 25 + 1) * 25)"
    by (rule calc_base_amount_exact)
  moreover have "0 \<le> (int n - 1) div 25"
    using assms by simp
  ultimately show ?thesis by simp
qed

lemma upload_accepted:
  assumes v: "form_valid up" and b: "body up = Pdf n" and n1: "1 \<le> n"
    and cap: "int n \<le> MAX_PAGES"
  shows "\<exists>r w' j. upload_pdf new_id up w = (Inr r, w')
     \<and> jobs w' = (jobs w)(new_id \<mapsto> j) \<and> pages j = int n
     \<and> (if int n \<le> FREE_SAMPLE_MAX_PAGES \<and> \<not> ledger_has w (normalize_email (form_email up))
         then amount_due j = 0 \<and> status j = ''uploaded'' \<and> paid j \<and> free_sample_applied j
           \<and> (\<exists>led ts. free_sample_ledger w' = Parsed led
                 \<and> used led (normalize_email (form_email up)) = Some (Used_By new_id ts))
         else status j = ''awaiting_payment'' \<and> \<not> paid j \<and> amount_due j = base_amount_due j
           \<and> free_sample_ledger w' = free_sample_ledger w)"
proof -
  obtain base where base: "calc_base_amount (int n) = Inr base" "0 < base"
    using base_amount_small [OF n1 cap] by blast
  show ?thesis
    using v b cap base
    by (cases "free_sample_ledger w")
       (auto simp: form_valid_def upload_pdf_def Let_def save_upload_def count_pdf_pages_def
          lift_error_def email_can_use_free_sample_def mark_email_used_free_sample_def
          read_ledger_def write_ledger_def write_job_def ledger_has_def io_defs)
qed

lemma lower_char_not_upper_C: "lower_char c \<noteq> CHR ''C''"
  by (simp add: lower_char_def)

lemma normalize_email_not_sentinel: "normalize_email e \<noteq> ''__CORRUPTED__''"
proof
  assume "normalize_email e = ''__CORRUPTED__''"
  then have "CHR ''C'' \<in> set (map lower_char (str_strip e))"
    by (simp add: normalize_email_def str_lower_def)
  then obtain x where "lower_char x = CHR ''C''"
    by auto
  then show False
    by (simp add: lower_char_not_upper_C)
qed

lemma corrupted_ledger_grants:
  assumes "free_sample_ledger w = Unparseable"
  shows "fst (email_can_use_free_sample (normalize_email e) w) = Inr True"
  using assms normalize_email_not_sentinel [of e]
  by (simp add: email_can_use_free_sample_def read_ledger_def io_defs)

lemma write_bridge_request_trace:
  assumes "paths j ''input_pdf'' = Some pdf"
  shows "trace (snd (write_bridge_request j w)) = trace w @ [Write_Text (Req_File (id_field j))]"
  using assms by (simp add: write_bridge_request_def Let_def io_defs)

lemma write_json_trace:
  assumes "trace (store w) = trace w"
  shows "trace (write_json p store w) = trace w @ [Write_Text (Tmp p), Replace (Tmp p) p]"
  using assms by (simp add: write_json_def perform_def)

text \<open>
  C5. An upload whose page count exceeds \<^verbatim>\<open>MAX_PAGES\<close> is rejected: the handler
  returns an error, the job store and the free-sample ledger are what they were, and no
  file is left under the new job's upload directory. When the form fields pass their
  checks, the error is 413 with the cap message, and the file operations are the write
  of \<^verbatim>\<open>input.pdf\<close> followed by its removal; otherwise the request is refused
  before anything is written.
\<close>

theorem upload_over_cap_rejected:
  assumes "body up = Pdf n" and "MAX_PAGES < int n"
  shows "case upload_pdf new_id up w of (r, w') \<Rightarrow>
           isl r \<and> jobs w' = jobs w \<and> free_sample_ledger w' = free_sample_ledger w
           \<and> input_pdfs w' \<subseteq> input_pdfs w
           \<and> (if form_valid up
               then r = Inl (HTTPException 413 (Text CAP_REJECT_MSG)) \<and> new_id \<notin> input_pdfs w'
                 \<and> trace w' = trace w @ [Write_Bytes (Input_Pdf new_id), Unlink (Input_Pdf new_id)]
               else w' = w)"
proof (cases "form_valid up")
  case True
  then show ?thesis
    using upload_over_cap [OF True assms, of new_id w] by auto
next
  case False
  then show ?thesis
    using upload_invalid_form [OF False, of new_id w] by auto
qed

theorem upload_over_cap_rejected_witness:
  "body (form 201) = Pdf 201 \<and> MAX_PAGES < int 201
   \<and> (case upload_pdf ''job_2'' (form 201) empty_world of (r, w') \<Rightarrow>
           isl r \<and> jobs w' = jobs empty_world
           \<and> free_sample_ledger w' = free_sample_ledger empty_world
           \<and> input_pdfs w' \<subseteq> input_pdfs empty_world
           \<and> (if form_valid (form 201)
               then r = Inl (HTTPException 413 (Text CAP_REJECT_MSG)) \<and> ''job_2'' \<notin> input_pdfs w'
                 \<and> trace w' = trace empty_world @ [Write_Bytes (Input_Pdf ''job_2''), Unlink (Input_Pdf ''job_2'')]
               else w' = empty_world))"
  using upload_over_cap_rejected [where up = "form 201" and n = 201 and new_id = "''job_2''" and w = empty_world]
  by (simp add: form_def MAX_PAGES_def)

text \<open>
  C3. The handler has no lower bound on the page count, unlike \<^verbatim>\<open>quote\<close>. A PDF
  with no pages, uploaded under an email that the ledger already records, is priced at
  \<open>0\<close> by \<^verbatim>\<open>calc_base_amount\<close>, and the status and the paid flag are derived from
  the amount being \<open>0\<close>: the job is created with status \<^verbatim>\<open>uploaded\<close> and
  \<^verbatim>\<open>paid = True\<close> although no free sample was applied. Lemma \<open>upload_accepted\<close>
  shows that both branches are as stated for every page count from 1 to \<^verbatim>\<open>MAX_PAGES\<close>.
\<close>

theorem upload_zero_pages_paid:
  "ledger_has used_world (normalize_email (form_email (form 0)))
   \<and> (case upload_pdf ''job_2'' (form 0) used_world of (r, w') \<Rightarrow>
         \<not> isl r \<and> free_sample_ledger w' = free_sample_ledger used_world
         \<and> map_option (\<lambda>j. (pages j, status j, paid j, amount_due j, free_sample_applied j))
             (jobs w' ''job_2'')
           = Some (0, ''uploaded'', True, 0, False))"
  by (simp add: upload_pdf_def form_def norm_ex fname_ex used_world_def used_ledger_def
      empty_world_def ledger_has_def Let_def save_upload_def count_pdf_pages_def
      lift_error_def calc_base_amount_0 write_job_def io_defs
      DEFAULT_RETENTION_DAYS_def ALLOWED_RETENTION_DAYS_def MAX_PAGES_def
      FREE_SAMPLE_MAX_PAGES_def email_can_use_free_sample_def read_ledger_def)

text \<open>
  C7. When the ledger file cannot be parsed, \<^verbatim>\<open>read_ledger\<close> returns a ledger
  whose only key is \<^verbatim>\<open>__CORRUPTED__\<close>, and the eligibility check asks whether the
  normalized email is a key: it is not, so the check succeeds. A 3-page upload on a
  corrupted ledger is created free of charge, and the ledger file is then rewritten.
  Lemma \<open>corrupted_ledger_grants\<close> shows the same for every email.
\<close>

theorem corrupted_ledger_grants_sample:
  "fst (email_can_use_free_sample (normalize_email '' A@b.c '') corrupt_world) = Inr True
   \<and> (case upload_pdf ''job_2'' (form 3) corrupt_world of (r, w') \<Rightarrow>
         \<not> isl r
         \<and> map_option (\<lambda>j. (status j, paid j, amount_due j, free_sample_applied j))
             (jobs w' ''job_2'')
           = Some (''uploaded'', True, 0, True)
         \<and> free_sample_ledger w' \<noteq> Unparseable)"
proof -
  have "calc_base_amount 3 = Inr 25"
    using calc_base_amount_exact [of 3] by simp
  then show ?thesis
    by (simp add: upload_pdf_def form_def norm_ex fname_ex corrupt_world_def
      empty_world_def Let_def save_upload_def count_pdf_pages_def
      lift_error_def write_job_def io_defs mark_email_used_free_sample_def write_ledger_def
      DEFAULT_RETENTION_DAYS_def ALLOWED_RETENTION_DAYS_def MAX_PAGES_def
      FREE_SAMPLE_MAX_PAGES_def email_can_use_free_sample_def read_ledger_def)
qed

text \<open>
  C8. \<^verbatim>\<open>write_bridge_request\<close> writes the request with one \<^verbatim>\<open>write_text\<close> on the
  final path, named by the job id: there is no temporary file and no rename. The
  worker's \<^verbatim>\<open>write_json\<close>, on the same path, writes the temporary file and renames
  it. Lemmas \<open>write_bridge_request_trace\<close> and \<open>write_json_trace\<close> show the same for
  every job and every path.
\<close>

theorem write_bridge_request_not_atomic:
  "trace (snd (write_bridge_request paid_job empty_world)) = [Write_Text (Req_File ''job_1'')]
   \<and> dom (requests (snd (write_bridge_request paid_job empty_world))) = {''job_1''}
   \<and> trace (write_json (Req_File ''job_1'') (\<lambda>w. w) empty_world)
       = [Write_Text (Tmp (Req_File ''job_1'')), Replace (Tmp (Req_File ''job_1'')) (Req_File ''job_1'')]"
  by (simp add: write_bridge_request_def paid_job_def done_job_def empty_world_def Let_def
      write_json_def io_defs)

subsection \<open>Properties of the worker, and \<^verbatim>\<open>start\<close> called twice\<close>

lemma then_do_raise: "then_do (raise e) f w = (Inl e, w)"
  by (simp add: then_do_def raise_def)

lemma then_do_return: "then_do (return x) f w = f x w"
  by (simp add: then_do_def return_def)

lemma then_do_assoc: "then_do (then_do m f) g = then_do m (\<lambda>x. then_do (f x) g)"
  by (rule ext) (simp add: then_do_def split: prod.splits sum.splits)

lemma then_do_step: "then_do (\<lambda>w. (Inr x, h w)) f w = f x (h w)"
  by (simp add: then_do_def)

lemma then_do_now_ts: "then_do now_ts f w = f (wall w (ticks w)) (w\<lparr>ticks := Suc (ticks w)\<rparr>)"
  by (simp add: then_do_def now_ts_def)

lemma then_do_attempt:
  "then_do (attempt faults s) f w = (if faults s then (Inl (IO_Failed s), w) else f () w)"
  by (simp add: attempt_def then_do_raise then_do_return)

lemma then_do_log:
  "then_do (log msg) f w =
     f () (w\<lparr>ticks := Suc (ticks w), log_lines := log_lines w @ [(wall w (ticks w), msg)]\<rparr>)"
  by (simp add: log_def then_do_def now_ts_def)

lemma log_eq:
  "log msg w =
     (Inr (), w\<lparr>ticks := Suc (ticks w), log_lines := log_lines w @ [(wall w (ticks w), msg)]\<rparr>)"
  by (simp add: log_def then_do_def now_ts_def)

lemma then_do_unlink_request:
  "then_do (unlink_request name) f w =
     f () (perform (Unlink (Req_File name)) (w\<lparr>requests := (requests w)(name := None)\<rparr>))"
  by (simp add: unlink_request_def then_do_def)

lemma then_do_create_output:
  "then_do (create_output op p) f w = f () (perform op (w\<lparr>outputs := insert p (outputs w)\<rparr>))"
  by (simp add: create_output_def then_do_def)

lemmas worker_simps = then_do_assoc then_do_raise then_do_return then_do_step then_do_now_ts then_do_attempt
  then_do_log log_eq then_do_unlink_request then_do_create_output unlink_request_def
  raise_def return_def perform_def write_json_def Let_def

lemma handle_request_requests:
  "requests (handle_request faults name w) = (requests w)(name := None)"
  by (simp add: handle_request_def process_request_def generate_xlsx_for_job_def
      build_zip_bundle_def worker_simps split: option.splits)

lemma handle_request_raises_gen:
  assumes "fst (process_request faults name w) = Inl e"
  shows "results (handle_request faults name w) = results w
     \<and> (e \<noteq> IO_Failed Write_Result \<longrightarrow> jobs (handle_request faults name w) = jobs w)
     \<and> (\<exists>ts. last (log_lines (handle_request faults name w))
               = (ts, ''ERROR processing '' @ name @ ''.json''))"
proof (cases "requests w name")
  case None
  then show ?thesis
    using assms
    by (auto simp: handle_request_def process_request_def worker_simps split: if_splits)
next
  case (Some req)
  show ?thesis
  proof (cases "jobs w (req_job_id req)")
    case None
    then show ?thesis
      using assms Some
      by (auto simp: handle_request_def process_request_def worker_simps split: if_splits)
  next
    case (Some j)
    then show ?thesis
      using assms \<open>requests w name = Some req\<close>
      by (auto simp: handle_request_def process_request_def generate_xlsx_for_job_def
          build_zip_bundle_def worker_simps split: if_splits)
  qed
qed

lemma queued_world_request: "requests queued_world = [''job_1'' \<mapsto> job_1_request]"
  by (simp add: queued_world_def start_def paid_world_def paid_job_def done_job_def
      empty_world_def read_job_def update_job_def write_job_def write_bridge_request_def
      job_1_request_def DEFAULT_RETENTION_DAYS_def Let_def io_defs)

lemma queued_world_jobs: "jobs queued_world = [''job_1'' \<mapsto> queued_job]"
  by (simp add: queued_world_def start_def paid_world_def paid_job_def done_job_def
      empty_world_def read_job_def update_job_def write_job_def write_bridge_request_def
      queued_job_def Let_def io_defs)

lemma queued_world_results: "results queued_world = Map.empty"
  by (simp add: queued_world_def start_def paid_world_def paid_job_def done_job_def
      empty_world_def read_job_def update_job_def write_job_def write_bridge_request_def
      Let_def io_defs)

lemma queued_job_fields:
  "id_field queued_job = ''job_1'' \<and> status queued_job = ''queued'' \<and> paid queued_job"
  by (simp add: queued_job_def paid_job_def done_job_def)

lemma process_request_queued_world:
  "fst (process_request faults ''job_1'' queued_world) =
     (if faults Read_Request then Inl (IO_Failed Read_Request)
      else if faults Read_Job then Inl (IO_Failed Read_Job)
      else if faults Import_Openpyxl
        then Inl (RuntimeError ''openpyxl is required (pip install openpyxl).'')
      else if faults Save_Xlsx then Inl (IO_Failed Save_Xlsx)
      else if faults Write_Metadata then Inl (IO_Failed Write_Metadata)
      else if faults Write_Summary then Inl (IO_Failed Write_Summary)
      else if faults Write_Zip then Inl (IO_Failed Write_Zip)
      else if faults Write_Job then Inl (IO_Failed Write_Job)
      else if faults Write_Result then Inl (IO_Failed Write_Result)
      else Inr ())"
proof -
  have "req_job_id job_1_request = ''job_1''"
    by (simp add: job_1_request_def)
  then show ?thesis
    using queued_job_fields
    by (simp add: process_request_def generate_xlsx_for_job_def build_zip_bundle_def
        worker_simps queued_world_request queued_world_jobs)
qed

lemma handle_request_done:
  assumes "fst (process_request faults name w) = Inl (IO_Failed Write_Result)"
  shows "\<exists>req j. requests w name = Some req
     \<and> jobs (handle_request faults name w) (req_job_id req) = Some j \<and> status j = ''done''"
proof (cases "requests w name")
  case None
  then show ?thesis
    using assms
    by (auto simp: handle_request_def process_request_def worker_simps split: if_splits)
next
  case (Some req)
  show ?thesis
  proof (cases "jobs w (req_job_id req)")
    case None
    then show ?thesis
      using assms Some
      by (auto simp: handle_request_def process_request_def worker_simps split: if_splits)
  next
    case (Some j)
    then show ?thesis
      using assms \<open>requests w name = Some req\<close>
      by (auto simp: handle_request_def process_request_def generate_xlsx_for_job_def
          build_zip_bundle_def worker_simps split: if_splits)
  qed
qed

lemma worker_pass_requests:
  "requests (worker_pass faults names w) = (\<lambda>k. if k \<in> set names then None else requests w k)"
proof (induction names arbitrary: w)
  case Nil
  show ?case by (simp add: worker_pass_def)
next
  case (Cons name names)
  have "worker_pass faults (name # names) w
      = worker_pass faults names (handle_request (faults name) name w)"
    by (simp add: worker_pass_def)
  then show ?case
    using Cons [of "handle_request (faults name) name w"]
    by (auto simp: handle_request_requests)
qed

lemma dropped_world_reached:
  "jobs (handle_request (only Import_Openpyxl) ''job_1'' queued_world) = jobs dropped_world
   \<and> requests (handle_request (only Import_Openpyxl) ''job_1'' queued_world)
       = requests dropped_world"
proof -
  have "fst (process_request (only Import_Openpyxl) ''job_1'' queued_world)
      = Inl (RuntimeError ''openpyxl is required (pip install openpyxl).'')"
    by (simp add: process_request_queued_world only_def)
  from handle_request_raises_gen [OF this]
  show ?thesis
    by (simp add: handle_request_requests dropped_world_def queued_world_request)
qed

text \<open>
  C9. When \<^verbatim>\<open>process_request\<close> raises, the handler of the loop logs the error and deletes
  the request file, so that no later listing of the requests directory holds it, and no
  result file is written. The job record is what it was before, unless the exception was
  raised by the write of the result file: that write comes after the write of the job
  record, which is then stored with status \<^verbatim>\<open>done\<close>.
\<close>

theorem handle_request_raises:
  assumes "fst (process_request faults name w) = Inl e"
  shows "requests (handle_request faults name w) = (requests w)(name := None)
     \<and> results (handle_request faults name w) = results w
     \<and> (if e = IO_Failed Write_Result
         then \<exists>req j. requests w name = Some req
                \<and> jobs (handle_request faults name w) (req_job_id req) = Some j
                \<and> status j = ''done''
         else jobs (handle_request faults name w) = jobs w)
     \<and> (\<exists>ts. last (log_lines (handle_request faults name w))
               = (ts, ''ERROR processing '' @ name @ ''.json''))"
  using handle_request_raises_gen [OF assms] handle_request_done [of faults name w] assms
  by (simp add: handle_request_requests)

theorem handle_request_raises_witness:
  "fst (process_request (only Save_Xlsx) ''job_1'' queued_world) = Inl (IO_Failed Save_Xlsx)
   \<and> requests (handle_request (only Save_Xlsx) ''job_1'' queued_world) ''job_1'' = None
   \<and> results (handle_request (only Save_Xlsx) ''job_1'' queued_world) = results queued_world
   \<and> jobs (handle_request (only Save_Xlsx) ''job_1'' queued_world) = jobs queued_world"
proof -
  have h: "fst (process_request (only Save_Xlsx) ''job_1'' queued_world) = Inl (IO_Failed Save_Xlsx)"
    by (simp add: process_request_queued_world only_def)
  from handle_request_raises [OF h] h show ?thesis
    by simp
qed

theorem handle_request_raises_counterexample:
  "isl (fst (process_request (only Write_Result) ''job_1'' queued_world))
   \<and> map_option status (jobs queued_world ''job_1'') = Some ''queued''
   \<and> map_option status (jobs (handle_request (only Write_Result) ''job_1'' queued_world) ''job_1'')
       = Some ''done''
   \<and> results (handle_request (only Write_Result) ''job_1'' queued_world) ''job_1'' = None
   \<and> requests (handle_request (only Write_Result) ''job_1'' queued_world) ''job_1'' = None"
proof -
  have "req_job_id job_1_request = ''job_1''"
    by (simp add: job_1_request_def)
  then show ?thesis
    using queued_job_fields
    by (simp add: handle_request_def process_request_def generate_xlsx_for_job_def
        build_zip_bundle_def worker_simps only_def queued_world_request queued_world_jobs
        queued_world_results)
qed

text \<open>
  C6. When \<open>start\<close> succeeds on a job, a second \<open>start\<close> succeeds too, returns the same
  job with status \<open>queued\<close> and changes nothing: no file is written by the second call.
  If the job was already queued, the first call changes nothing either, so the request
  file of the job exists after both calls only if it existed before. Otherwise the first
  call made the transition: the trace of both calls holds exactly one write of the request
  file of this job, and that file exists.
\<close>

theorem start_twice:
  assumes "jobs w job_id = Some j" and "id_field j = job_id"
    and "start job_id w = (Inr r1, w1)"
  shows "\<exists>r2. start job_id w1 = (Inr r2, w1)
      \<and> reply_job r2 = reply_job r1
      \<and> status (reply_job r2) = ''queued''
      \<and> (if status j = ''queued'' then w1 = w
          else requests w1 job_id \<noteq> None
           \<and> trace w1 = trace w @ [Write_Text (Job_File job_id), Write_Text (Req_File job_id),
                                     Write_Text (Job_File job_id)])"
proof -
  from start_ok_cases[OF assms(1,3)]
  have paid: "paid j" and st: "status j \<in> {''uploaded'', ''paid'', ''queued''}" by simp_all
  show ?thesis
  proof (cases "status j = ''queued''")
    case True
    from start_queued[OF assms(1) paid True] assms(3)
    have "w1 = w" "reply_job r1 = j" by auto
    with start_queued[OF assms(1) paid True] True show ?thesis by auto
  next
    case False
    with st have st': "status j \<in> {''uploaded'', ''paid''}" by auto
    have "paths j ''input_pdf'' \<noteq> None"
    proof
      assume "paths j ''input_pdf'' = None"
      from start_keyerror[OF assms(1,2) this paid st'] assms(3) show False by simp
    qed
    then obtain pdf where pdf: "paths j ''input_pdf'' = Some pdf" by auto
    from start_transition[OF assms(1,2) pdf paid st'] assms(3) obtain req where
      j1: "jobs w1 = (jobs w)(job_id \<mapsto> reply_job r1)"
      and q: "status (reply_job r1) = ''queued''" and p1: "paid (reply_job r1)"
      and rq: "requests w1 = (requests w)(job_id \<mapsto> req)"
      and tr: "trace w1 = trace w @ [Write_Text (Job_File job_id), Write_Text (Req_File job_id),
                              Write_Text (Job_File job_id)]"
      by auto
    from j1 have "jobs w1 job_id = Some (reply_job r1)" by simp
    from start_queued[OF this p1 q] q rq tr False show ?thesis by simp
  qed
qed

theorem start_twice_witness:
  "\<exists>r1 w1 r2. start ''job_1'' paid_world = (Inr r1, w1) \<and> start ''job_1'' w1 = (Inr r2, w1)
     \<and> status (reply_job r2) = ''queued'' \<and> requests w1 ''job_1'' \<noteq> None
     \<and> trace w1 = [Write_Text (Job_File ''job_1''), Write_Text (Req_File ''job_1''),
                    Write_Text (Job_File ''job_1'')]"
proof -
  have h: "jobs paid_world ''job_1'' = Some paid_job"
    by (simp add: paid_world_def empty_world_def)
  have i: "id_field paid_job = ''job_1''" by (simp add: paid_job_def done_job_def)
  have s: "status paid_job \<noteq> ''queued''" by (simp add: paid_job_def)
  have t: "trace paid_world = []" by (simp add: paid_world_def empty_world_def)
  obtain r1 w1 where ok: "start ''job_1'' paid_world = (Inr r1, w1)"
    using start_transition[OF h i, of "Input_Pdf ''job_1''"]
    by (auto simp: paid_job_def done_job_def)
  from start_twice[OF h i ok] s t ok show ?thesis by auto
qed

text \<open>
  The job is paid and queued and its request file is gone, which is the state that the
  handler of the worker's loop leaves when a request fails (lemma
  \<open>dropped_world_reached\<close>). \<open>start\<close> succeeds, twice, and no request file exists.
\<close>

theorem start_twice_counterexample:
  "(case start ''job_1'' dropped_world of (r1, w1) \<Rightarrow>
      case start ''job_1'' w1 of (r2, w2) \<Rightarrow>
        r1 = Inr \<lparr>reply_job = queued_job, reply_note = Some ''already_queued'',
                  queued_request = None\<rparr>
        \<and> r2 = r1 \<and> requests w2 ''job_1'' = None)
   \<and> jobs dropped_world ''job_1'' = Some queued_job
   \<and> paid queued_job \<and> status queued_job = ''queued''"
proof -
  have "jobs dropped_world ''job_1'' = Some queued_job"
    by (simp add: dropped_world_def queued_world_jobs)
  from start_queued [OF this] queued_job_fields this show ?thesis
    by (simp add: dropped_world_def)
qed

end
